theory Spec2Isabelle
  imports Main
begin

section \<open>Strings: the Go library functions the server calls\<close>

text \<open>
  Go strings are byte sequences; they are modelled as \<^typ>\<open>string\<close>. The functions
  below are those of package \<open>strings\<close> and \<open>path/filepath\<close> that \<open>pathInfo\<close>,
  \<open>WAC.allow\<close> and \<open>Server.handle\<close> call. Every separator and cut set the server
  passes is a single byte, so the separator is a \<^typ>\<open>char\<close>.
\<close>

definition HasPrefix :: "string \<Rightarrow> string \<Rightarrow> bool" where
  "HasPrefix s pre = (take (length pre) s = pre)"

definition HasSuffix :: "string \<Rightarrow> string \<Rightarrow> bool" where
  "HasSuffix s suf = (length suf \<le> length s \<and> drop (length s - length suf) s = suf)"

definition TrimLeft :: "string \<Rightarrow> char \<Rightarrow> string" where
  "TrimLeft s c = dropWhile (\<lambda>x. x = c) s"

definition TrimRight :: "string \<Rightarrow> char \<Rightarrow> string" where
  "TrimRight s c = rev (dropWhile (\<lambda>x. x = c) (rev s))"

text \<open>\<open>strings.Split(s, sep)\<close>: the pieces between the separators; one piece for a
  string without separator, also for the empty string.\<close>

fun Split :: "string \<Rightarrow> char \<Rightarrow> string list" where
  "Split [] sep = [[]]"
| "Split (c # cs) sep =
     (if c = sep then [] # Split cs sep
      else (case Split cs sep of [] \<Rightarrow> [[c]] | x # xs \<Rightarrow> (c # x) # xs))"

fun Join :: "string list \<Rightarrow> string \<Rightarrow> string" where
  "Join [] sep = []"
| "Join [x] sep = x"
| "Join (x # y # ys) sep = x @ sep @ Join (y # ys) sep"

text \<open>\<open>strings.TrimSpace\<close> on ASCII white space (tab, line feed, vertical tab, form
  feed, carriage return, space).\<close>

definition byte :: "char \<Rightarrow> nat" where
  "byte c = of_char c"

definition isSpace :: "char \<Rightarrow> bool" where
  "isSpace c = (c = CHR '' '' \<or> (9 \<le> byte c \<and> byte c \<le> 13))"

definition TrimSpace :: "string \<Rightarrow> string" where
  "TrimSpace s = rev (dropWhile isSpace (rev (dropWhile isSpace s)))"

text \<open>
  \<open>filepath.Clean\<close> works on the elements of a path: empty elements and \<open>.\<close> are
  dropped, \<open>..\<close> removes the element before it (or stays, at the start of a path that
  is not rooted), and the empty result is \<open>.\<close>. \<open>cleanElems\<close> keeps the elements
  written so far in reverse.
\<close>

fun cleanElems :: "bool \<Rightarrow> string list \<Rightarrow> string list \<Rightarrow> string list" where
  "cleanElems rooted out [] = rev out"
| "cleanElems rooted out (e # es) =
     (if e = [] \<or> e = ''.'' then cleanElems rooted out es
      else if e = ''..'' then
        (case out of
           [] \<Rightarrow> (if rooted then cleanElems rooted [] es else cleanElems rooted [''..''] es)
         | t # ts \<Rightarrow> (if t = ''..'' then cleanElems rooted (''..'' # out) es
                      else cleanElems rooted ts es))
      else cleanElems rooted (e # out) es)"

definition Clean :: "string \<Rightarrow> string" where
  "Clean p =
     (if p = [] then ''.''
      else
        (let rooted = (hd p = CHR ''/'');
             body = Join (cleanElems rooted [] (Split p CHR ''/'')) ''/''
         in if rooted then CHR ''/'' # body
            else if body = [] then ''.'' else body))"

text \<open>\<open>filepath.Dir\<close>: everything up to the last separator, cleaned.\<close>

definition Dir :: "string \<Rightarrow> string" where
  "Dir p = Clean (rev (dropWhile (\<lambda>c. c \<noteq> CHR ''/'') (rev p)))"

text \<open>\<open>filepath.Base\<close>: the last element, after the trailing separators are gone.\<close>

definition filepath_Base :: "string \<Rightarrow> string" where
  "filepath_Base p =
     (if p = [] then ''.''
      else
        (let q = TrimRight p CHR ''/''
         in if q = [] then ''/''
            else rev (takeWhile (\<lambda>c. c \<noteq> CHR ''/'') (rev q))))"

section \<open>URLs\<close>

text \<open>
  \<open>url.Parse\<close> and \<open>URL.String\<close> of package \<open>net/url\<close>, for the references the
  server resolves: an optional scheme, an authority after \<open>//\<close>, and a path. A
  reference with a control character is refused, so is one that starts with a colon.
  Queries, fragments, user information and percent-escapes are outside this model:
  the URIs considered contain none of \<open>? # @ %\<close>.
\<close>

datatype error =
    MissingResourcePath
  | URLParseError
  | TokenError
  | UUIDError
  | IOError
  | AuthenticationRequired string
  | AccessDenied string
  | Panic

record url =
  url_Scheme :: string
  url_Opaque :: string
  url_Host :: string
  url_Path :: string

definition isLetter :: "char \<Rightarrow> bool" where
  "isLetter c = ((97 \<le> byte c \<and> byte c \<le> 122) \<or> (65 \<le> byte c \<and> byte c \<le> 90))"

definition isSchemeChar :: "char \<Rightarrow> bool" where
  "isSchemeChar c = ((48 \<le> byte c \<and> byte c \<le> 57) \<or> c = CHR ''+'' \<or> c = CHR ''-'' \<or> c = CHR ''.'')"

text \<open>\<open>getScheme\<close>: \<open>acc\<close> is the prefix read so far, in reverse, \<open>whole\<close> the
  reference. The result is the scheme and the rest.\<close>

fun getScheme :: "string \<Rightarrow> string \<Rightarrow> string \<Rightarrow> error + (string \<times> string)" where
  "getScheme whole acc [] = Inr ([], whole)"
| "getScheme whole acc (c # cs) =
     (if isLetter c then getScheme whole (c # acc) cs
      else if isSchemeChar c then
        (if acc = [] then Inr ([], whole) else getScheme whole (c # acc) cs)
      else if c = CHR '':'' then
        (if acc = [] then Inl URLParseError else Inr (rev acc, cs))
      else Inr ([], whole))"

definition isControl :: "char \<Rightarrow> bool" where
  "isControl c = (byte c < 32 \<or> byte c = 127)"

definition url_Parse :: "string \<Rightarrow> error + url" where
  "url_Parse rawURL =
     (if list_ex isControl rawURL then Inl URLParseError
      else
        (case getScheme rawURL [] rawURL of
           Inl e \<Rightarrow> Inl e
         | Inr (scheme, rest) \<Rightarrow>
             if \<not> HasPrefix rest ''/'' \<and> scheme \<noteq> [] then
               Inr \<lparr>url_Scheme = scheme, url_Opaque = rest, url_Host = [], url_Path = []\<rparr>
             else if HasPrefix rest ''//'' \<and> (scheme \<noteq> [] \<or> \<not> HasPrefix rest ''///'') then
               Inr \<lparr>url_Scheme = scheme, url_Opaque = [],
                    url_Host = takeWhile (\<lambda>c. c \<noteq> CHR ''/'') (drop 2 rest),
                    url_Path = dropWhile (\<lambda>c. c \<noteq> CHR ''/'') (drop 2 rest)\<rparr>
             else
               Inr \<lparr>url_Scheme = scheme, url_Opaque = [], url_Host = [], url_Path = rest\<rparr>))"

definition url_String :: "url \<Rightarrow> string" where
  "url_String u =
     (if url_Scheme u \<noteq> [] then url_Scheme u @ '':'' else []) @
     (if url_Opaque u \<noteq> [] then url_Opaque u
      else
        (if url_Scheme u \<noteq> [] \<or> url_Host u \<noteq> [] then
           (if url_Host u \<noteq> [] \<or> url_Path u \<noteq> [] then ''//'' else []) @ url_Host u
         else []) @
        (if url_Path u \<noteq> [] \<and> hd (url_Path u) \<noteq> CHR ''/'' \<and> url_Host u \<noteq> [] then ''/'' else []) @
        url_Path u)"

text \<open>\<open>net.SplitHostPort\<close> for hosts without brackets: the port follows the only
  colon; without a colon, or with several, the call fails (\<open>None\<close>).\<close>

definition SplitHostPort :: "string \<Rightarrow> (string \<times> string) option" where
  "SplitHostPort hostport =
     (case Split hostport CHR '':'' of
        [h, p] \<Rightarrow> Some (h, p)
      | _ \<Rightarrow> None)"

section \<open>The file system\<close>

text \<open>
  The store is a tree of directories and regular files, addressed by the list of the
  names on the way from the root; the working directory is the root, the name \<open>.\<close>
  stands for the directory it is in, and \<open>..\<close> is not interpreted. \<open>os.Stat\<close> answers in one of three ways: the
  file does not exist (\<open>ENOENT\<close>), another error (\<open>ENOTDIR\<close>: a regular file where a
  directory is needed), or the file information, of which the server reads \<open>IsDir\<close>.
\<close>

datatype node = Directory | RegularFile string

type_synonym fs = "string list \<Rightarrow> node option"

datatype stat_result = NotExist | StatError | Info bool

definition components :: "string \<Rightarrow> string list" where
  "components name = filter (\<lambda>e. e \<noteq> [] \<and> e \<noteq> ''.'') (Split name CHR ''/'')"

fun resolve :: "fs \<Rightarrow> string list \<Rightarrow> string list \<Rightarrow> stat_result" where
  "resolve files pre [] = Info True"
| "resolve files pre (c # cs) =
     (case files (pre @ [c]) of
        None \<Rightarrow> NotExist
      | Some Directory \<Rightarrow> resolve files (pre @ [c]) cs
      | Some (RegularFile d) \<Rightarrow> (if cs = [] then Info False else StatError))"

definition os_Stat :: "fs \<Rightarrow> string \<Rightarrow> stat_result" where
  "os_Stat files name =
     (if name = [] then NotExist
      else
        (case resolve files [] (components name) of
           Info False \<Rightarrow> (if HasSuffix name ''/'' then StatError else Info False)
         | r \<Rightarrow> r))"

text \<open>\<open>os.MkdirAll\<close>: the directories on the way are made where they are missing; a
  regular file on the way is an error, and so is the empty name.\<close>

fun mkdirs :: "fs \<Rightarrow> string list \<Rightarrow> string list \<Rightarrow> fs option" where
  "mkdirs files pre [] = Some files"
| "mkdirs files pre (c # cs) =
     (case files (pre @ [c]) of
        None \<Rightarrow> mkdirs (files(pre @ [c] \<mapsto> Directory)) (pre @ [c]) cs
      | Some Directory \<Rightarrow> mkdirs files (pre @ [c]) cs
      | Some (RegularFile d) \<Rightarrow> None)"

definition os_MkdirAll :: "fs \<Rightarrow> string \<Rightarrow> error + fs" where
  "os_MkdirAll files name =
     (if name = [] then Inl IOError
      else (case mkdirs files [] (components name) of None \<Rightarrow> Inl IOError | Some f \<Rightarrow> Inr f))"

text \<open>\<open>os.OpenFile(name, O_CREATE|O_TRUNC|O_WRONLY, 0644)\<close>: the parent must be a
  directory and the name must not be one; the file is then there and empty.
  \<open>writeFile\<close> is what the writes to the open file leave in it.\<close>

definition os_OpenFile :: "fs \<Rightarrow> string \<Rightarrow> error + fs" where
  "os_OpenFile files name =
     (let cs = components name
      in if cs = [] \<or> HasSuffix name ''/'' then Inl IOError
         else
           (case resolve files [] (butlast cs) of
              Info True \<Rightarrow>
                (case files cs of
                   Some Directory \<Rightarrow> Inl IOError
                 | _ \<Rightarrow> Inr (files(cs \<mapsto> RegularFile [])))
            | _ \<Rightarrow> Inl IOError))"

definition writeFile :: "fs \<Rightarrow> string \<Rightarrow> string \<Rightarrow> fs" where
  "writeFile files name d = files(components name \<mapsto> RegularFile d)"

section \<open>RDF graphs\<close>

text \<open>
  Modelled from the spec: the graph engine is a collaborator of the core and its code
  is not part of it. A graph is the list of its triples; \<open>All(s, p, o)\<close> is the
  pattern query with \<open>nil\<close> as wild card, \<open>One\<close> its first answer, \<open>Len\<close> the
  number of triples. A resource prints in angle brackets, which is the "bracketed"
  form the origin filter compares with.
\<close>

datatype rdfTerm = Resource string | Literal string | BlankNode string

record triple =
  Subject :: rdfTerm
  Predicate :: rdfTerm
  Object :: rdfTerm

type_synonym graph = "triple list"

fun term_String :: "rdfTerm \<Rightarrow> string" where
  "term_String (Resource u) = ''<'' @ u @ ''>''"
| "term_String (Literal v) = CHR 0x22 # v @ [CHR 0x22]"
| "term_String (BlankNode i) = ''_:'' @ i"

text \<open>
  Modelled from the spec: the helpers \<open>brack\<close> and \<open>debrack\<close> are declared
  outside the core's files. \<open>brack\<close> puts a string in angle brackets (the spec's
  "bracketed" origin), \<open>debrack\<close> takes one pair of them away.
\<close>

definition brack :: "string \<Rightarrow> string" where
  "brack s = ''<'' @ s @ ''>''"

definition debrack :: "string \<Rightarrow> string" where
  "debrack s =
     (if length s < 2 then s
      else if hd s \<noteq> CHR ''<'' then s
      else if last s \<noteq> CHR ''>'' then s
      else butlast (tl s))"

definition matchTerm :: "rdfTerm option \<Rightarrow> rdfTerm \<Rightarrow> bool" where
  "matchTerm pat t = (case pat of None \<Rightarrow> True | Some x \<Rightarrow> x = t)"

definition graphAll :: "graph \<Rightarrow> rdfTerm option \<Rightarrow> rdfTerm option \<Rightarrow> rdfTerm option \<Rightarrow> triple list" where
  "graphAll g s p ob =
     filter (\<lambda>t. matchTerm s (Subject t) \<and> matchTerm p (Predicate t) \<and> matchTerm ob (Object t)) g"

definition graphOne :: "graph \<Rightarrow> rdfTerm option \<Rightarrow> rdfTerm option \<Rightarrow> rdfTerm option \<Rightarrow> triple option" where
  "graphOne g s p ob = (case graphAll g s p ob of [] \<Rightarrow> None | t # ts \<Rightarrow> Some t)"

text \<open>
  Modelled from the spec: the vocabularies \<open>ns.acl\<close>, \<open>ns.foaf\<close> and \<open>ns.rdf\<close>
  are declared outside the core's files. They are the ACL, FOAF and RDF vocabularies
  the spec names, with the prefixes the repository's ACL documents spell out.
\<close>

definition ns_acl :: "string \<Rightarrow> rdfTerm" where
  "ns_acl name = Resource (''http://www.w3.org/ns/auth/acl#'' @ name)"

definition ns_foaf :: "string \<Rightarrow> rdfTerm" where
  "ns_foaf name = Resource (''http://xmlns.com/foaf/0.1/'' @ name)"

definition ns_rdf :: "string \<Rightarrow> rdfTerm" where
  "ns_rdf name = Resource (''http://www.w3.org/1999/02/22-rdf-syntax-ns#'' @ name)"

section \<open>Requests and the server\<close>

text \<open>
  Of a request the core reads the method, the host, the URL path, whether it came
  over TLS, the headers (\<open>Header.Get\<close>: the empty string for an absent header) and
  the body.
\<close>

record httpRequest =
  Method :: string
  Host :: string
  URLPath :: string
  TLS :: bool
  Header :: "string \<Rightarrow> string"
  Body :: string

text \<open>
  The server: its configuration (\<open>Config.DataRoot\<close>, \<open>Config.Vhosts\<close>), the cookie
  salt and the clock, and the collaborators whose code is outside the core, each
  taken as a parameter: the mime detector (\<open>magic.TypeByFile\<close>), the secure
  cookie codec (\<open>cookie.Encode\<close>), the graph engine (\<open>Parse\<close>, \<open>LoadURI\<close>,
  \<open>JSONPatch\<close>, \<open>SPARQLUpdate\<close>, \<open>Serialize\<close>), the table \<open>mimeParser\<close>, the
  ETag of a file (\<open>NewETag\<close>), the \<open>rel="type"\<close> target of a Link header
  (\<open>ParseLinkHeader(h).MatchRel("type")\<close>), the random UUID, the three
  authentication mechanisms, the system API, content negotiation and the multipart
  reader.
\<close>

record server =
  DataRoot :: string
  Vhosts :: bool
  cookieSalt :: string
  Now :: int
  TypeByFile :: "fs \<Rightarrow> string \<Rightarrow> string"
  cookieEncode :: "string \<Rightarrow> (string \<Rightarrow> string option) \<Rightarrow> error + string"
  Parse :: "string \<Rightarrow> string \<Rightarrow> graph"
  LoadURI :: "string \<Rightarrow> graph"
  JSONPatch :: "graph \<Rightarrow> string \<Rightarrow> graph"
  SPARQLUpdate :: "graph \<Rightarrow> string \<Rightarrow> graph"
  Serialize :: "string \<Rightarrow> graph \<Rightarrow> error + string"
  mimeParser :: "string \<Rightarrow> string"
  NewETag :: "fs \<Rightarrow> string \<Rightarrow> string"
  MatchRelType :: "string \<Rightarrow> string"
  newUUID :: "error + string"
  userCookie :: "httpRequest \<Rightarrow> string"
  WebIDDigestAuth :: "httpRequest \<Rightarrow> string"
  WebIDTLSAuth :: "httpRequest \<Rightarrow> string"
  HandleSystem :: "httpRequest \<Rightarrow> int"
  Negotiate :: "httpRequest \<Rightarrow> error + string"
  MultipartFiles :: "httpRequest \<Rightarrow> error + (string \<times> string) list"

section \<open>Path resolution\<close>

definition ACLSuffix :: string where
  "ACLSuffix = ''.acl''"

definition METASuffix :: string where
  "METASuffix = ''.meta''"

record pathInfo =
  Obj :: url
  URI :: string
  Base :: string
  Path :: string
  Root :: string
  File :: string
  FileType :: string
  AclURI :: string
  AclFile :: string
  MetaURI :: string
  MetaFile :: string
  Exists :: bool

text \<open>The second half of \<open>pathInfo\<close>, from \<open>if len(p.Path) == 0\<close> on: \<open>p\<close> is the
  parsed URL with its path already stripped and completed.\<close>

definition pathInfoFill :: "server \<Rightarrow> url \<Rightarrow> string \<Rightarrow> string \<Rightarrow> bool \<Rightarrow> string \<Rightarrow> pathInfo" where
  "pathInfoFill s p base root ex ftype =
     (let uri = (if length (url_Path p) = 0 then url_String p @ ''/'' else url_String p);
          file = (if Vhosts s then root @ url_Path p
                  else if length (DataRoot s) > 0 then DataRoot s @ url_Path p
                  else url_Path p)
      in if HasSuffix (url_Path p) ACLSuffix then
           \<lparr>Obj = p, URI = uri, Base = base, Path = url_Path p, Root = root, File = file,
            FileType = ftype, AclURI = uri, AclFile = file, MetaURI = uri, MetaFile = file,
            Exists = ex\<rparr>
         else if HasSuffix (url_Path p) METASuffix then
           \<lparr>Obj = p, URI = uri, Base = base, Path = url_Path p, Root = root, File = file,
            FileType = ftype, AclURI = uri @ ACLSuffix, AclFile = file @ ACLSuffix,
            MetaURI = uri, MetaFile = file, Exists = ex\<rparr>
         else
           \<lparr>Obj = p, URI = uri, Base = base, Path = url_Path p, Root = root, File = file,
            FileType = ftype, AclURI = uri @ ACLSuffix, AclFile = file @ ACLSuffix,
            MetaURI = uri @ METASuffix, MetaFile = file @ METASuffix, Exists = ex\<rparr>)"

text \<open>The first step on the path: \<open>if strings.HasPrefix(p.Path, "/") && len(p.Path) > 0\<close>.\<close>

definition stripLeadingSlash :: "string \<Rightarrow> string" where
  "stripLeadingSlash x =
     (if HasPrefix x ''/'' \<and> length x > 0 then TrimLeft x CHR ''/'' else x)"

text \<open>The host with its port, the storage root and the base of a parsed URL: in
  vhosts mode the host is part of the root.\<close>

definition hostPort :: "url \<Rightarrow> string" where
  "hostPort p =
     (let hp = (case SplitHostPort (url_Host p) of None \<Rightarrow> ([], []) | Some x \<Rightarrow> x);
          host = (if length (fst hp) = 0 then url_Host p else fst hp)
      in if length (snd hp) > 0 then host @ '':'' @ snd hp else host)"

definition rootOf :: "server \<Rightarrow> url \<Rightarrow> string" where
  "rootOf s p = (if Vhosts s then DataRoot s @ hostPort p @ ''/'' else DataRoot s)"

definition baseOf :: "server \<Rightarrow> url \<Rightarrow> string" where
  "baseOf s p =
     (if Vhosts s then url_Scheme p @ ''://'' @ hostPort p
      else url_Scheme p @ ''://'' @ url_Host p)"

text \<open>\<open>Server.pathInfo\<close>. When \<open>os.Stat\<close> fails with an error other than "does not
  exist", the code calls \<open>IsDir\<close> on a nil file information and panics.\<close>

definition pathInfo :: "server \<Rightarrow> fs \<Rightarrow> string \<Rightarrow> error + pathInfo" where
  "pathInfo s files path =
     (if length path = 0 then Inl MissingResourcePath
      else
        (case url_Parse path of
           Inl e \<Rightarrow> Inl e
         | Inr p \<Rightarrow>
             (let path1 = stripLeadingSlash (url_Path p)
              in case os_Stat files (rootOf s p @ path1) of
                   NotExist \<Rightarrow>
                     Inr (pathInfoFill s (p\<lparr>url_Path := path1\<rparr>) (baseOf s p) (rootOf s p) False [])
                 | StatError \<Rightarrow> Inl Panic
                 | Info isDir \<Rightarrow>
                     (let path2 = (if isDir \<and> \<not> HasSuffix path1 ''/'' \<and> length path1 > 1
                                   then path1 @ ''/'' else path1)
                      in Inr (pathInfoFill s (p\<lparr>url_Path := path2\<rparr>) (baseOf s p) (rootOf s p) True
                                (TypeByFile s files (rootOf s p @ path2)))))))"

section \<open>Secure tokens\<close>

text \<open>\<open>fmt.Sprintf("%d", n)\<close>.\<close>

fun showNat :: "nat \<Rightarrow> string" where
  "showNat n = (if n < 10 then [char_of (48 + n)] else showNat (n div 10) @ [char_of (48 + n mod 10)])"

definition showInt :: "int \<Rightarrow> string" where
  "showInt i = (if i < 0 then CHR ''-'' # showNat (nat (- i)) else showNat (nat i))"

text \<open>\<open>NewSecureToken\<close>: the values get the entry \<open>valid\<close>, the clock plus the
  duration (in seconds), and are encoded under the token type.\<close>

definition NewSecureToken :: "server \<Rightarrow> string \<Rightarrow> (string \<Rightarrow> string option) \<Rightarrow> int \<Rightarrow> error + string" where
  "NewSecureToken s tokenType vals duration =
     (case cookieEncode s tokenType (vals(''valid'' \<mapsto> showInt (Now s + duration))) of
        Inl e \<Rightarrow> Inl e
      | Inr token \<Rightarrow> Inr token)"

section \<open>Web access control\<close>

text \<open>
  Modelled from the spec: \<open>Graph.ReadFile\<close> belongs to the graph engine. It reads
  the file and parses it as Turtle; a missing or unreadable file leaves the graph
  empty.
\<close>

definition readBytes :: "fs \<Rightarrow> string \<Rightarrow> string option" where
  "readBytes files name =
     (case os_Stat files name of
        Info False \<Rightarrow> (case files (components name) of Some (RegularFile d) \<Rightarrow> Some d | _ \<Rightarrow> None)
      | _ \<Rightarrow> None)"

definition ReadFile :: "server \<Rightarrow> fs \<Rightarrow> string \<Rightarrow> graph" where
  "ReadFile srv files name =
     (case readBytes files name of None \<Rightarrow> [] | Some d \<Rightarrow> Parse srv ''text/turtle'' d)"

record WAC =
  req :: httpRequest
  user :: string

text \<open>\<open>verifyDelegator\<close> and \<open>NewWAC\<close>.\<close>

definition verifyDelegator :: "server \<Rightarrow> string \<Rightarrow> string \<Rightarrow> bool" where
  "verifyDelegator srv delegator delegatee =
     list_ex (\<lambda>val. debrack (term_String (Object val)) = delegatee)
       (graphAll (LoadURI srv delegator) (Some (Resource delegator))
          (Some (Resource ''http://www.w3.org/ns/auth/acl#delegates'')) None)"

definition NewWAC :: "server \<Rightarrow> httpRequest \<Rightarrow> string \<Rightarrow> WAC" where
  "NewWAC srv r u =
     (if length (Header r ''On-Behalf-Of'') > 0
        \<and> verifyDelegator srv (debrack (Header r ''On-Behalf-Of'')) u
      then \<lparr>req = r, user = debrack (Header r ''On-Behalf-Of'')\<rparr>
      else \<lparr>req = r, user = u\<rparr>)"

text \<open>
  The result of \<open>allow\<close>: the status code and the error it returns, the
  \<open>WWW-Authenticate\<close> header it sets on the response, and the ACL files it has
  read, each with the access type in force, in order.
\<close>

record verdict =
  code :: int
  failure :: "error option"
  wwwAuthenticate :: "string option"
  consulted :: "(string \<times> string) list"

text \<open>
  The agent tests on a rule \<open>S\<close>, written twice in the source (once per pass): owner,
  agent, and the agent classes, where a class is either \<open>foaf:Agent\<close> or a group
  whose fetched graph types it as \<open>foaf:Group\<close> and lists the user as member. Every
  test that succeeds returns 200, so their order does not show in the result.
\<close>

definition groupMember :: "server \<Rightarrow> rdfTerm \<Rightarrow> string \<Rightarrow> bool" where
  "groupMember srv ob u =
     (let groupGraph = LoadURI srv (debrack (term_String ob))
      in length groupGraph > 0
         \<and> graphOne groupGraph (Some ob) (Some (ns_rdf ''type'')) (Some (ns_foaf ''Group'')) \<noteq> None
         \<and> graphAll groupGraph (Some ob) (Some (ns_foaf ''member'')) (Some (Resource u)) \<noteq> [])"

definition agentTest :: "server \<Rightarrow> graph \<Rightarrow> rdfTerm \<Rightarrow> string \<Rightarrow> bool" where
  "agentTest srv aclGraph S u =
     (graphAll aclGraph (Some S) (Some (ns_acl ''owner'')) (Some (Resource u)) \<noteq> []
      \<or> graphAll aclGraph (Some S) (Some (ns_acl ''agent'')) (Some (Resource u)) \<noteq> []
      \<or> list_ex (\<lambda>t. Object t = ns_foaf ''Agent'' \<or> groupMember srv (Object t) u)
           (graphAll aclGraph (Some S) (Some (ns_acl ''agentClass'')) None))"

text \<open>The first pass: rules with mode \<open>Control\<close> for the resource. No origin is
  looked at.\<close>

definition controlPass :: "server \<Rightarrow> graph \<Rightarrow> string \<Rightarrow> string \<Rightarrow> string \<Rightarrow> bool" where
  "controlPass srv aclGraph accessType uri u =
     list_ex (\<lambda>i. graphAll aclGraph (Some (Subject i)) (Some (ns_acl accessType)) (Some (Resource uri)) \<noteq> []
                  \<and> agentTest srv aclGraph (Subject i) u)
       (graphAll aclGraph None (Some (ns_acl ''mode'')) (Some (ns_acl ''Control'')))"

text \<open>The origin filter of the second pass: with a request origin and origins on
  the rule, one of them must print as the bracketed request origin; otherwise the
  rule is skipped.\<close>

definition originAllowed :: "graph \<Rightarrow> rdfTerm \<Rightarrow> string \<Rightarrow> bool" where
  "originAllowed aclGraph S origin =
     (let origins = graphAll aclGraph (Some S) (Some (ns_acl ''origin'')) None
      in if length origin > 0 \<and> length origins > 0
         then list_ex (\<lambda>og. brack origin = term_String (Object og)) origins
         else True)"

definition modePass :: "server \<Rightarrow> graph \<Rightarrow> string \<Rightarrow> string \<Rightarrow> string \<Rightarrow> string \<Rightarrow> string \<Rightarrow> bool" where
  "modePass srv aclGraph mode accessType uri u origin =
     list_ex (\<lambda>i. graphAll aclGraph (Some (Subject i)) (Some (ns_acl accessType)) (Some (Resource uri)) \<noteq> []
                  \<and> originAllowed aclGraph (Subject i) origin
                  \<and> agentTest srv aclGraph (Subject i) u)
       (graphAll aclGraph None (Some (ns_acl ''mode'')) (Some (ns_acl mode)))"

text \<open>The body of \<open>if aclGraph.Len() > 0\<close>: every path through it returns.\<close>

definition checkPolicies :: "server \<Rightarrow> WAC \<Rightarrow> string \<Rightarrow> pathInfo \<Rightarrow> string \<Rightarrow> graph \<Rightarrow> (string \<times> string) list \<Rightarrow> verdict" where
  "checkPolicies srv acl mode p accessType aclGraph log =
     (if controlPass srv aclGraph accessType (URI p) (user acl) then
        \<lparr>code = 200, failure = None, wwwAuthenticate = None, consulted = log\<rparr>
      else if modePass srv aclGraph mode accessType (URI p) (user acl) (Header (req acl) ''Origin'') then
        \<lparr>code = 200, failure = None, wwwAuthenticate = None, consulted = log\<rparr>
      else if length (user acl) = 0 then
        (case NewSecureToken srv ''WWW-Authenticate'' [''secret'' \<mapsto> cookieSalt srv] 60 of
           Inl e \<Rightarrow> \<lparr>code = 500, failure = Some e, wwwAuthenticate = None, consulted = log\<rparr>
         | Inr token \<Rightarrow>
             \<lparr>code = 401, failure = Some (AuthenticationRequired (URI p)),
              wwwAuthenticate = Some (''WebID-RSA nonce='' @ [CHR 0x22] @ token @ [CHR 0x22]),
              consulted = log\<rparr>)
      else \<lparr>code = 403, failure = Some (AccessDenied (user acl)), wwwAuthenticate = None,
            consulted = log\<rparr>)"

text \<open>The next path of the walk, before \<open>path += "/"\<close>: on the first iteration and
  on the later ones.\<close>

definition ascendFirst :: "pathInfo \<Rightarrow> string" where
  "ascendFirst p =
     (if HasSuffix (Path p) ''/'' then
        (if Dir (Dir (Path p)) = ''.'' then Base p else Base p @ ''/'' @ Dir (Dir (Path p)))
      else Base p @ ''/'' @ Dir (Path p))"

definition ascendLater :: "pathInfo \<Rightarrow> string" where
  "ascendLater p =
     (if Dir (Dir (Path p)) = ''.'' then Base p else Base p @ ''/'' @ Dir (Dir (Path p)))"

text \<open>
  The loop of \<open>allow\<close>: \<open>n\<close> iterations are left, \<open>i\<close> is the loop counter. A
  target that does not exist takes the \<open>continue\<close>, which leaves \<open>path\<close> and
  \<open>accessType\<close> as they are.
\<close>

fun allowLoop :: "server \<Rightarrow> fs \<Rightarrow> WAC \<Rightarrow> string \<Rightarrow> nat \<Rightarrow> nat \<Rightarrow> string \<Rightarrow> string \<Rightarrow> (string \<times> string) list \<Rightarrow> verdict" where
  "allowLoop srv files acl mode 0 i path accessType log =
     \<lparr>code = 200, failure = None, wwwAuthenticate = None, consulted = log\<rparr>"
| "allowLoop srv files acl mode (Suc n) i path accessType log =
     (case pathInfo srv files path of
        Inl e \<Rightarrow> \<lparr>code = 500, failure = Some e, wwwAuthenticate = None, consulted = log\<rparr>
      | Inr p \<Rightarrow>
          if \<not> Exists p then allowLoop srv files acl mode n (Suc i) path accessType log
          else
            (let aclGraph = ReadFile srv files (AclFile p);
                 log' = log @ [(accessType, AclFile p)]
             in if length aclGraph > 0 then checkPolicies srv acl mode p accessType aclGraph log'
                else if i = 0 then
                  allowLoop srv files acl mode n (Suc i) (ascendFirst p @ ''/'') ''defaultForNew'' log'
                else if length (Path p) = 0 then
                  \<lparr>code = 200, failure = None, wwwAuthenticate = None, consulted = log'\<rparr>
                else
                  allowLoop srv files acl mode n (Suc i) (ascendLater p @ ''/'') ''defaultForNew'' log'))"

text \<open>\<open>WAC.allow\<close>.\<close>

definition allow :: "server \<Rightarrow> fs \<Rightarrow> WAC \<Rightarrow> string \<Rightarrow> string \<Rightarrow> verdict" where
  "allow srv files acl mode path =
     (case pathInfo srv files path of
        Inl e \<Rightarrow> \<lparr>code = 500, failure = Some e, wwwAuthenticate = None, consulted = []\<rparr>
      | Inr p \<Rightarrow>
          allowLoop srv files acl mode (length (Split (Path p) CHR ''/'')) 0 path ''accessTo'' [])"

text \<open>
  Where the walk of \<open>allow\<close> ends: the same loop, returning the place instead of the
  decision, together with the ACL files read on the way. It ends at the first
  existing target whose ACL graph is not empty (that graph is authoritative), or
  without policies, or with the error of \<open>pathInfo\<close>.
\<close>

datatype walkEnd = WalkFailed error | Authoritative pathInfo string | NoPolicies

fun aclWalk :: "server \<Rightarrow> fs \<Rightarrow> nat \<Rightarrow> nat \<Rightarrow> string \<Rightarrow> string \<Rightarrow> (string \<times> string) list \<Rightarrow> walkEnd \<times> (string \<times> string) list" where
  "aclWalk srv files 0 i path accessType log = (NoPolicies, log)"
| "aclWalk srv files (Suc n) i path accessType log =
     (case pathInfo srv files path of
        Inl e \<Rightarrow> (WalkFailed e, log)
      | Inr p \<Rightarrow>
          if \<not> Exists p then aclWalk srv files n (Suc i) path accessType log
          else
            (let log' = log @ [(accessType, AclFile p)]
             in if length (ReadFile srv files (AclFile p)) > 0 then (Authoritative p accessType, log')
                else if i = 0 then
                  aclWalk srv files n (Suc i) (ascendFirst p @ ''/'') ''defaultForNew'' log'
                else if length (Path p) = 0 then (NoPolicies, log')
                else aclWalk srv files n (Suc i) (ascendLater p @ ''/'') ''defaultForNew'' log'))"

definition walkFrom :: "server \<Rightarrow> fs \<Rightarrow> string \<Rightarrow> walkEnd \<times> (string \<times> string) list" where
  "walkFrom srv files path =
     (case pathInfo srv files path of
        Inl e \<Rightarrow> (WalkFailed e, [])
      | Inr p \<Rightarrow> aclWalk srv files (length (Split (Path p) CHR ''/'')) 0 path ''accessTo'' [])"


text \<open>The decision of \<open>allow\<close> at the end of a walk.\<close>

definition verdictOf :: "server \<Rightarrow> fs \<Rightarrow> WAC \<Rightarrow> string \<Rightarrow> walkEnd \<times> (string \<times> string) list \<Rightarrow> verdict" where
  "verdictOf srv files acl mode w =
     (case fst w of
        WalkFailed e \<Rightarrow> \<lparr>code = 500, failure = Some e, wwwAuthenticate = None, consulted = snd w\<rparr>
      | Authoritative p accessType \<Rightarrow>
          checkPolicies srv acl mode p accessType (ReadFile srv files (AclFile p)) (snd w)
      | NoPolicies \<Rightarrow> \<lparr>code = 200, failure = None, wwwAuthenticate = None, consulted = snd w\<rparr>)"

text \<open>A rule of the graph matches the request when one of the two passes succeeds.\<close>

definition ruleMatches :: "server \<Rightarrow> graph \<Rightarrow> string \<Rightarrow> string \<Rightarrow> string \<Rightarrow> string \<Rightarrow> string \<Rightarrow> bool" where
  "ruleMatches srv aclGraph mode accessType uri u origin =
     (controlPass srv aclGraph accessType uri u \<or> modePass srv aclGraph mode accessType uri u origin)"

section \<open>The request handler\<close>

definition HCType :: string where
  "HCType = ''Content-Type''"

definition SystemPrefix :: string where
  "SystemPrefix = ''.system''"

text \<open>\<open>httpRequest.BaseURI\<close>.\<close>

definition BaseURI :: "httpRequest \<Rightarrow> string" where
  "BaseURI r =
     (let scheme = (if TLS r \<or> Header r ''X-Forwarded-Proto'' = ''https'' then ''https'' else ''http'');
          hp = (case SplitHostPort (Host r) of None \<Rightarrow> (Host r, []) | Some x \<Rightarrow> x);
          host = (if length (fst hp) = 0 then ''localhost'' else fst hp);
          port0 = (if length (snd hp) > 0 then '':'' @ snd hp else snd hp);
          port = (if (scheme = ''https'' \<and> port0 = '':443'') \<or> (scheme = ''http'' \<and> port0 = '':80'')
                  then [] else port0)
      in scheme @ ''://'' @ host @ port @ URLPath r)"

text \<open>\<open>httpRequest.ifMatch\<close> and \<open>httpRequest.ifNoneMatch\<close>.\<close>

definition ifMatch :: "httpRequest \<Rightarrow> string \<Rightarrow> bool" where
  "ifMatch r etag =
     (if length etag = 0 then True
      else if length (Header r ''If-Match'') = 0 then True
      else list_ex (\<lambda>v. TrimSpace v = ''*'' \<or> TrimSpace v = etag)
             (Split (Header r ''If-Match'') CHR '',''))"

definition ifNoneMatch :: "httpRequest \<Rightarrow> string \<Rightarrow> bool" where
  "ifNoneMatch r etag =
     (if length etag = 0 then True
      else if length (Header r ''If-None-Match'') = 0 then True
      else list_ex (\<lambda>v. TrimSpace v \<noteq> ''*'' \<and> TrimSpace v \<noteq> etag)
             (Split (Header r ''If-None-Match'') CHR '',''))"

text \<open>\<open>httpRequest.authn\<close>: the first mechanism that names a user wins.\<close>

definition authn :: "server \<Rightarrow> httpRequest \<Rightarrow> string" where
  "authn srv r =
     (if length (userCookie srv r) > 0 then userCookie srv r
      else if length (Header r ''Authorization'') > 0 \<and> length (WebIDDigestAuth srv r) > 0
        then WebIDDigestAuth srv r
      else if length (WebIDTLSAuth srv r) > 0 then WebIDTLSAuth srv r
      else [])"

text \<open>
  What \<open>handle\<close> leaves behind: the status of the response (0 when the handler
  returns without setting one), the \<open>Location\<close> headers, the \<open>WWW-Authenticate\<close>
  header, and the file system.
\<close>

record reply =
  status :: int
  Location :: "string list"
  challenge :: "string option"
  store :: fs

definition respond :: "int \<Rightarrow> fs \<Rightarrow> reply" where
  "respond st files = \<lparr>status = st, Location = [], challenge = None, store = files\<rparr>"

text \<open>The media type of the body, \<open>strings.Split(dataMime, ";")[0]\<close>, and the
  rejection of a type without parser.\<close>

definition dataMimeOf :: "httpRequest \<Rightarrow> string" where
  "dataMimeOf r = (case Split (Header r HCType) CHR '';'' of [] \<Rightarrow> [] | x # xs \<Rightarrow> x)"

definition unsupportedMediaType :: "server \<Rightarrow> httpRequest \<Rightarrow> bool" where
  "unsupportedMediaType srv r =
     (length (dataMimeOf r) > 0
      \<and> dataMimeOf r \<noteq> ''multipart/form-data''
      \<and> \<not> length (mimeParser srv (dataMimeOf r)) > 0
      \<and> Method r \<noteq> ''PUT'' \<and> Method r \<noteq> ''HEAD'' \<and> Method r \<noteq> ''OPTIONS'')"

text \<open>The access gate of PATCH, POST and PUT ("check append first ... check if we
  can write then"): the verdict to answer with, or none when the request may go on.\<close>

definition appendOrWrite :: "server \<Rightarrow> fs \<Rightarrow> WAC \<Rightarrow> string \<Rightarrow> verdict option" where
  "appendOrWrite srv files acl uri =
     (let aclAppend = allow srv files acl ''Append'' uri
      in if code aclAppend > 200 \<or> failure aclAppend \<noteq> None then
           (let aclWrite = allow srv files acl ''Write'' uri
            in if code aclWrite > 200 \<or> failure aclWrite \<noteq> None then Some aclWrite else None)
         else None)"

definition denied :: "verdict \<Rightarrow> fs \<Rightarrow> reply" where
  "denied v files = \<lparr>status = code v, Location = [], challenge = wwwAuthenticate v, store = files\<rparr>"

text \<open>The precondition gate of the three verbs: the ETag of the file, quoted, against
  \<open>If-Match\<close> and \<open>If-None-Match\<close>.\<close>

definition quoted :: "string \<Rightarrow> string" where
  "quoted e = CHR 0x22 # e @ [CHR 0x22]"

definition preconditionsHold :: "server \<Rightarrow> fs \<Rightarrow> httpRequest \<Rightarrow> pathInfo \<Rightarrow> bool" where
  "preconditionsHold srv files r resource =
     (ifMatch r (quoted (NewETag srv files (File resource)))
      \<and> ifNoneMatch r (quoted (NewETag srv files (File resource))))"

text \<open>The graph a request body turns the stored graph into.\<close>

definition applyBody :: "server \<Rightarrow> string \<Rightarrow> graph \<Rightarrow> string \<Rightarrow> graph" where
  "applyBody srv dataMime g body =
     (if dataMime = ''application/json'' then JSONPatch srv g body
      else if dataMime = ''application/sparql-update'' then SPARQLUpdate srv g body
      else g @ Parse srv dataMime body)"

definition handlePATCH :: "server \<Rightarrow> fs \<Rightarrow> httpRequest \<Rightarrow> WAC \<Rightarrow> pathInfo \<Rightarrow> error + reply" where
  "handlePATCH srv files r acl resource =
     (case appendOrWrite srv files acl (URI resource) of
        Some v \<Rightarrow> Inr (denied v files)
      | None \<Rightarrow>
          if \<not> preconditionsHold srv files r resource then Inr (respond 412 files)
          else if length (mimeParser srv (dataMimeOf r)) > 0 then
            (let g = applyBody srv (dataMimeOf r) (ReadFile srv files (File resource)) (Body r)
             in case os_OpenFile files (File resource) of
                  Inl e \<Rightarrow> Inr (respond 500 files)
                | Inr files1 \<Rightarrow>
                    (case Serialize srv ''text/turtle'' g of
                       Inl e \<Rightarrow> Inr (respond 500 files1)
                     | Inr d \<Rightarrow> Inr (respond 200 (writeFile files1 (File resource) d))))
          else Inr (respond 0 files))"

text \<open>The slug of an LDP POST: leading and trailing slashes are stripped.\<close>

definition sanitizeSlug :: "string \<Rightarrow> string" where
  "sanitizeSlug slug =
     (let s1 = (if HasPrefix slug ''/'' then TrimLeft slug CHR ''/'' else slug)
      in if HasSuffix s1 ''/'' then TrimRight s1 CHR ''/'' else s1)"

definition BasicContainer :: string where
  "BasicContainer = ''http://www.w3.org/ns/ldp#BasicContainer''"

text \<open>POST of a container below an existing one: \<open>path\<close> is the child's path,
  already with its slug.\<close>

definition postContainer :: "server \<Rightarrow> fs \<Rightarrow> httpRequest \<Rightarrow> pathInfo \<Rightarrow> string \<Rightarrow> error + reply" where
  "postContainer srv files r resource path =
     (let path' = (if \<not> HasSuffix path ''/'' then path @ ''/'' else path)
      in case pathInfo srv files (Base resource @ ''/'' @ path') of
           Inl e \<Rightarrow> Inr (respond 500 files)
         | Inr child \<Rightarrow>
             (case os_MkdirAll files (File child) of
                Inl e \<Rightarrow> Inr ((respond 500 files)\<lparr>Location := [URI child]\<rparr>)
              | Inr files1 \<Rightarrow>
                  if length (mimeParser srv (dataMimeOf r)) > 0 then
                    (let g = map (\<lambda>t. t\<lparr>Subject := Resource ''.''\<rparr>) (Parse srv (dataMimeOf r) (Body r))
                     in case os_OpenFile files1 (MetaFile child) of
                          Inl e \<Rightarrow> Inr ((respond 500 files1)\<lparr>Location := [URI child]\<rparr>)
                        | Inr files2 \<Rightarrow>
                            if length g > 0 then
                              (case Serialize srv [] g of
                                 Inl e \<Rightarrow> Inr ((respond 500 files2)\<lparr>Location := [URI child]\<rparr>)
                               | Inr d \<Rightarrow>
                                   Inr ((respond 201 (writeFile files2 (MetaFile child) d))
                                          \<lparr>Location := [URI child]\<rparr>))
                            else Inr ((respond 201 files2)\<lparr>Location := [URI child]\<rparr>))
                  else Inr ((respond 201 files1)\<lparr>Location := [URI child]\<rparr>)))"

text \<open>The files of a multipart form, written one after the other; the first that
  cannot be opened ends the request with 500.\<close>

fun writeParts :: "fs \<Rightarrow> pathInfo \<Rightarrow> (string \<times> string) list \<Rightarrow> string list \<Rightarrow> reply" where
  "writeParts files resource [] locs = \<lparr>status = 201, Location = locs, challenge = None, store = files\<rparr>"
| "writeParts files resource ((filename, d) # parts) locs =
     (let newFile = (if filepath_Base (Path resource) = filename then File resource
                     else File resource @ filename)
      in case os_OpenFile files newFile of
           Inl e \<Rightarrow> \<lparr>status = 500, Location = locs, challenge = None, store = files\<rparr>
         | Inr files1 \<Rightarrow>
             writeParts (writeFile files1 newFile d) resource parts (locs @ [URI resource @ filename]))"

text \<open>The second half of POST, from \<open>if stat == nil\<close> on: \<open>st\<close> is the result of
  the first \<open>os.Stat\<close>, \<open>isNew\<close> and \<open>locs\<close> are what the LDP branch has set.\<close>

definition postWrite :: "server \<Rightarrow> fs \<Rightarrow> httpRequest \<Rightarrow> pathInfo \<Rightarrow> stat_result \<Rightarrow> bool \<Rightarrow> string list \<Rightarrow> error + reply" where
  "postWrite srv files r resource st isNew0 locs =
     (case (case st of Info d \<Rightarrow> Inr files | _ \<Rightarrow> os_MkdirAll files (Dir (File resource))) of
        Inl e \<Rightarrow> Inr ((respond 500 files)\<lparr>Location := locs\<rparr>)
      | Inr files1 \<Rightarrow>
          if dataMimeOf r = ''multipart/form-data'' then
            (case MultipartFiles srv r of
               Inl e \<Rightarrow> Inr ((respond 0 files1)\<lparr>Location := locs\<rparr>)
             | Inr parts \<Rightarrow> Inr (writeParts files1 resource parts locs))
          else
            (let isNew = (isNew0 \<or> os_Stat files1 (File resource) = NotExist)
             in case os_OpenFile files1 (File resource) of
                  Inl e \<Rightarrow> Inr ((respond 500 files1)\<lparr>Location := locs\<rparr>)
                | Inr files2 \<Rightarrow>
                    (let d = (if length (mimeParser srv (dataMimeOf r)) > 0 then
                                (let g = applyBody srv (dataMimeOf r)
                                           (ReadFile srv files1 (File resource)) (Body r)
                                 in if length g > 0 then
                                      (case Serialize srv ''text/turtle'' g of Inl e \<Rightarrow> [] | Inr x \<Rightarrow> x)
                                    else [])
                              else Body r)
                     in Inr ((respond (if isNew then 201 else 200)
                                (writeFile files2 (File resource) d))\<lparr>Location := locs\<rparr>))))"

definition handlePOST :: "server \<Rightarrow> fs \<Rightarrow> httpRequest \<Rightarrow> WAC \<Rightarrow> pathInfo \<Rightarrow> error + reply" where
  "handlePOST srv files r acl resource =
     (case appendOrWrite srv files acl (URI resource) of
        Some v \<Rightarrow> Inr (denied v files)
      | None \<Rightarrow>
          if \<not> preconditionsHold srv files r resource then Inr (respond 412 files)
          else
            (case os_Stat files (File resource) of
               Info True \<Rightarrow>
                 if dataMimeOf r \<noteq> ''multipart/form-data'' then
                   (case newUUID srv of
                      Inl e \<Rightarrow> Inr (respond 500 files)
                    | Inr uuid \<Rightarrow>
                        if length uuid < 6 then Inl Panic
                        else
                          (let path0 = (if \<not> HasSuffix (Path resource) ''/'' then Path resource @ ''/''
                                        else Path resource);
                               slug = Header r ''Slug''
                           in if length slug > 0
                                 \<and> (case os_Stat files (File resource @ sanitizeSlug slug) of
                                      Info d \<Rightarrow> True | _ \<Rightarrow> False)
                              then Inr (respond 409 files)
                              else
                                (let path = path0 @ (if length slug > 0 then sanitizeSlug slug else take 6 uuid);
                                     link = MatchRelType srv (Header r ''Link'')
                                 in if length link > 0 \<and> link = BasicContainer then
                                      postContainer srv files r resource path
                                    else
                                      (case pathInfo srv files (Base resource @ ''/'' @ path) of
                                         Inl e \<Rightarrow> Inr (respond 500 files)
                                       | Inr child \<Rightarrow>
                                           postWrite srv files r child (Info True) True [URI child]))))
                 else postWrite srv files r resource (Info True) False []
             | st \<Rightarrow> postWrite srv files r resource st False []))"

definition handlePUT :: "server \<Rightarrow> fs \<Rightarrow> httpRequest \<Rightarrow> WAC \<Rightarrow> pathInfo \<Rightarrow> error + reply" where
  "handlePUT srv files r acl resource =
     (case appendOrWrite srv files acl (URI resource) of
        Some v \<Rightarrow> Inr (denied v files)
      | None \<Rightarrow>
          if \<not> preconditionsHold srv files r resource then Inr (respond 412 files)
          else if length (MatchRelType srv (Header r ''Link'')) > 0
                  \<and> MatchRelType srv (Header r ''Link'') = BasicContainer then
            (case os_MkdirAll files (File resource) of
               Inl e \<Rightarrow> Inr (respond 500 files)
             | Inr files1 \<Rightarrow>
                 (case pathInfo srv files1 (URI resource) of
                    Inl e \<Rightarrow> Inl Panic
                  | Inr refreshed \<Rightarrow> Inr (respond 201 files1)))
          else
            (case os_MkdirAll files (Dir (File resource)) of
               Inl e \<Rightarrow> Inr (respond 500 files)
             | Inr files1 \<Rightarrow>
                 (case os_OpenFile files1 (File resource) of
                    Inl e \<Rightarrow>
                      (case os_Stat files1 (File resource) of
                         Info isDir \<Rightarrow> Inr (respond (if isDir then 406 else 500) files1)
                       | _ \<Rightarrow> Inl Panic)
                  | Inr files2 \<Rightarrow>
                      (let d = (if length (mimeParser srv (dataMimeOf r)) > 0 then
                                  (case Serialize srv ''text/turtle'' (Parse srv (dataMimeOf r) (Body r)) of
                                     Inl e \<Rightarrow> [] | Inr x \<Rightarrow> x)
                                else Body r)
                       in Inr ((respond 201 (writeFile files2 (File resource) d))
                                 \<lparr>Location := [URI resource]\<rparr>)))))"

text \<open>
  \<open>Server.handle\<close>, for the verbs that write a resource. The order is that of the
  source: authentication, the system API, the resolution of the target (whose error
  is dropped, so that a failed resolution is a nil dereference), the media type of
  the body, content negotiation, and the verb. The other branches of the switch
  (OPTIONS, GET and HEAD, DELETE, MKCOL, the WebDAV verbs, the 405 default) are the
  parameter \<open>others\<close>.
\<close>

definition handle :: "(server \<Rightarrow> fs \<Rightarrow> httpRequest \<Rightarrow> WAC \<Rightarrow> pathInfo \<Rightarrow> string \<Rightarrow> error + reply) \<Rightarrow> server \<Rightarrow> fs \<Rightarrow> httpRequest \<Rightarrow> error + reply" where
  "handle others srv files r =
     (let acl = NewWAC srv r (authn srv r)
      in if HasPrefix (URLPath r) (''/'' @ SystemPrefix) \<and> Method r \<noteq> ''OPTIONS'' then
           Inr (respond (HandleSystem srv r) files)
         else
           (case pathInfo srv files (BaseURI r) of
              Inl e \<Rightarrow> Inl Panic
            | Inr resource \<Rightarrow>
                if unsupportedMediaType srv r then Inr (respond 415 files)
                else
                  (case Negotiate srv r of
                     Inl e \<Rightarrow> Inr (respond 406 files)
                   | Inr contentType \<Rightarrow>
                       if Method r = ''PATCH'' then handlePATCH srv files r acl resource
                       else if Method r = ''POST'' then handlePOST srv files r acl resource
                       else if Method r = ''PUT'' then handlePUT srv files r acl resource
                       else others srv files r acl resource contentType)))"

section \<open>The spec's words\<close>



section \<open>A small server\<close>

text \<open>
  A store to run the definitions on. Below the data root \<open>data/\<close> there are: \<open>docs/\<close>
  with an ACL that gives Alice \<open>Read\<close> on the directory and, by \<open>defaultForNew\<close>, on
  what is in it; \<open>docs/sub/\<close> without ACL; \<open>docs/locked/\<close> with an ACL of its own
  for Bob; \<open>app/\<close> and \<open>shop/\<close>, whose rules carry an origin; \<open>pub/\<close> and the
  one-letter directory \<open>d\<close> without ACL. The parser of the example knows the four
  ACL documents by their text; the session cookie is the user.
\<close>

definition alice :: string where
  "alice = ''https://alice.example/card#me''"

definition bob :: string where
  "bob = ''https://bob.example/card#me''"

definition rule :: "string \<Rightarrow> string \<Rightarrow> rdfTerm \<Rightarrow> triple" where
  "rule S p ob = \<lparr>Subject = Resource S, Predicate = ns_acl p, Object = ob\<rparr>"

definition docsPolicy :: graph where
  "docsPolicy =
     [rule ''#Default'' ''mode'' (ns_acl ''Read''),
      rule ''#Default'' ''accessTo'' (Resource ''http://h/docs/''),
      rule ''#Default'' ''defaultForNew'' (Resource ''http://h/docs/''),
      rule ''#Default'' ''agent'' (Resource alice)]"

definition lockedPolicy :: graph where
  "lockedPolicy =
     [rule ''#Bob'' ''mode'' (ns_acl ''Read''),
      rule ''#Bob'' ''accessTo'' (Resource ''http://h/docs/locked/''),
      rule ''#Bob'' ''defaultForNew'' (Resource ''http://h/docs/locked/''),
      rule ''#Bob'' ''agent'' (Resource bob)]"

definition appPolicy :: graph where
  "appPolicy =
     [rule ''#Owner'' ''mode'' (ns_acl ''Read''),
      rule ''#Owner'' ''mode'' (ns_acl ''Control''),
      rule ''#Owner'' ''accessTo'' (Resource ''http://h/app/''),
      rule ''#Owner'' ''agent'' (Resource alice),
      rule ''#Owner'' ''origin'' (Resource ''http://example.org/'')]"

definition shopPolicy :: graph where
  "shopPolicy =
     [rule ''#Public'' ''mode'' (ns_acl ''Read''),
      rule ''#Public'' ''accessTo'' (Resource ''http://h/shop/''),
      rule ''#Public'' ''agentClass'' (ns_foaf ''Agent''),
      rule ''#Public'' ''origin'' (Resource ''http://example.org/'')]"

definition exampleParse :: "string \<Rightarrow> string \<Rightarrow> graph" where
  "exampleParse mime d =
     (if d = ''docs policy'' then docsPolicy
      else if d = ''locked policy'' then lockedPolicy
      else if d = ''app policy'' then appPolicy
      else if d = ''shop policy'' then shopPolicy
      else [])"

definition exampleFiles :: fs where
  "exampleFiles =
     map_of
       [([''data''], Directory),
        ([''data'', ''d''], Directory),
        ([''data'', ''pub''], Directory),
        ([''data'', ''pub'', ''ldpr''], RegularFile ''first''),
        ([''data'', ''docs''], Directory),
        ([''data'', ''docs'', ''.acl''], RegularFile ''docs policy''),
        ([''data'', ''docs'', ''notes''], RegularFile ''hello''),
        ([''data'', ''docs'', ''sub''], Directory),
        ([''data'', ''docs'', ''sub'', ''leaf''], RegularFile ''x''),
        ([''data'', ''docs'', ''locked''], Directory),
        ([''data'', ''docs'', ''locked'', ''.acl''], RegularFile ''locked policy''),
        ([''data'', ''docs'', ''locked'', ''leaf''], RegularFile ''y''),
        ([''data'', ''app''], Directory),
        ([''data'', ''app'', ''.acl''], RegularFile ''app policy''),
        ([''data'', ''shop''], Directory),
        ([''data'', ''shop'', ''.acl''], RegularFile ''shop policy'')]"

definition exampleServer :: server where
  "exampleServer =
     \<lparr>DataRoot = ''data/'', Vhosts = False, cookieSalt = ''salt'', Now = 1000,
      TypeByFile = (\<lambda>files name. ''text/plain''),
      cookieEncode = (\<lambda>tokenType vals.
         Inr (tokenType @ ''.'' @ (case vals ''valid'' of None \<Rightarrow> [] | Some v \<Rightarrow> v))),
      Parse = exampleParse,
      LoadURI = (\<lambda>uri. []),
      JSONPatch = (\<lambda>g body. g),
      SPARQLUpdate = (\<lambda>g body. g),
      Serialize = (\<lambda>mime g. Inr ''turtle''),
      mimeParser = (\<lambda>mime. if mime = ''text/turtle'' then ''turtle'' else []),
      NewETag = (\<lambda>files name. ''abc''),
      MatchRelType = (\<lambda>h. []),
      newUUID = Inr ''0123456789abcdef'',
      userCookie = (\<lambda>r. Header r ''Cookie''),
      WebIDDigestAuth = (\<lambda>r. []),
      WebIDTLSAuth = (\<lambda>r. []),
      HandleSystem = (\<lambda>r. 200),
      Negotiate = (\<lambda>r. Inr ''text/turtle''),
      MultipartFiles = (\<lambda>r. Inr [])\<rparr>"

text \<open>Requests are built from a method, a path and a list of headers.\<close>

definition request :: "string \<Rightarrow> string \<Rightarrow> (string \<times> string) list \<Rightarrow> httpRequest" where
  "request m path hs =
     \<lparr>Method = m, Host = ''h'', URLPath = path, TLS = False,
      Header = (\<lambda>k. case map_of hs k of None \<Rightarrow> [] | Some v \<Rightarrow> v), Body = ''body''\<rparr>"




definition nopeInfo :: pathInfo where
  "nopeInfo =
     \<lparr>Obj = \<lparr>url_Scheme = ''http'', url_Opaque = [], url_Host = ''h'', url_Path = ''nope/''\<rparr>,
      URI = ''http://h/nope/'', Base = ''http://h'', Path = ''nope/'', Root = ''data/'',
      File = ''data/nope/'', FileType = [], AclURI = ''http://h/nope/.acl'',
      AclFile = ''data/nope/.acl'', MetaURI = ''http://h/nope/.meta'',
      MetaFile = ''data/nope/.meta'', Exists = False\<rparr>"

definition lockedInfo :: pathInfo where
  "lockedInfo =
     \<lparr>Obj = \<lparr>url_Scheme = ''http'', url_Opaque = [], url_Host = ''h'', url_Path = ''docs/locked/''\<rparr>,
      URI = ''http://h/docs/locked/'', Base = ''http://h'', Path = ''docs/locked/'', Root = ''data/'',
      File = ''data/docs/locked/'', FileType = ''text/plain'', AclURI = ''http://h/docs/locked/.acl'',
      AclFile = ''data/docs/locked/.acl'', MetaURI = ''http://h/docs/locked/.meta'',
      MetaFile = ''data/docs/locked/.meta'', Exists = True\<rparr>"

definition appInfo :: pathInfo where
  "appInfo =
     \<lparr>Obj = \<lparr>url_Scheme = ''http'', url_Opaque = [], url_Host = ''h'', url_Path = ''app/''\<rparr>,
      URI = ''http://h/app/'', Base = ''http://h'', Path = ''app/'', Root = ''data/'',
      File = ''data/app/'', FileType = ''text/plain'', AclURI = ''http://h/app/.acl'',
      AclFile = ''data/app/.acl'', MetaURI = ''http://h/app/.meta'',
      MetaFile = ''data/app/.meta'', Exists = True\<rparr>"

definition shopInfo :: pathInfo where
  "shopInfo =
     \<lparr>Obj = \<lparr>url_Scheme = ''http'', url_Opaque = [], url_Host = ''h'', url_Path = ''shop/''\<rparr>,
      URI = ''http://h/shop/'', Base = ''http://h'', Path = ''shop/'', Root = ''data/'',
      File = ''data/shop/'', FileType = ''text/plain'', AclURI = ''http://h/shop/.acl'',
      AclFile = ''data/shop/.acl'', MetaURI = ''http://h/shop/.meta'',
      MetaFile = ''data/shop/.meta'', Exists = True\<rparr>"

text \<open>The access check of a user, with the headers of the request.\<close>

definition visitor :: "string \<Rightarrow> (string \<times> string) list \<Rightarrow> WAC" where
  "visitor u hs = \<lparr>req = request ''HEAD'' ''/'' hs, user = u\<rparr>"

definition noOthers :: "server \<Rightarrow> fs \<Rightarrow> httpRequest \<Rightarrow> WAC \<Rightarrow> pathInfo \<Rightarrow> string \<Rightarrow> error + reply" where
  "noOthers srv files r acl resource contentType = Inr (respond 200 files)"









text \<open>POSTs of the example to the container \<open>pub/\<close>: with the slug of a child that
  is there, with a new slug, with a slug of slashes only, and a multipart form with
  the slug of the child that is there.\<close>

definition postLdpr :: httpRequest where
  "postLdpr = request ''POST'' ''/pub/'' [(''Content-Type'', ''text/turtle''), (''Slug'', ''ldpr'')]"





text \<open>A POST to the directory \<open>d\<close>, addressed without its slash.\<close>

definition postToD :: httpRequest where
  "postToD = request ''POST'' ''/d'' [(''Content-Type'', ''text/turtle''), (''Slug'', ''new'')]"

section \<open>Properties of path resolution\<close>






lemma HasSuffix_single: "HasSuffix s [c] \<longleftrightarrow> s \<noteq> [] \<and> last s = c"
proof (cases s rule: rev_cases)
  case Nil
  then show ?thesis by (simp add: HasSuffix_def)
next
  case (snoc ys y)
  then show ?thesis by (auto simp: HasSuffix_def)
qed








text \<open>A directory with a name of one letter, named without its slash, keeps its
  path: the test on the length asks for more than one character.\<close>

lemma pathInfo_one_letter_directory:
  "os_Stat exampleFiles ''data/d'' = Info True
   \<and> map_sum id Path (pathInfo exampleServer exampleFiles ''http://h/d'') = Inr ''d''
   \<and> map_sum id File (pathInfo exampleServer exampleFiles ''http://h/d'') = Inr ''data/d''"
  by code_simp

section \<open>Properties of the access check\<close>

lemma allowLoop_aclWalk:
  "allowLoop srv files acl mode n i path accessType log =
     verdictOf srv files acl mode (aclWalk srv files n i path accessType log)"
proof (induction n arbitrary: i path accessType log)
  case 0
  show ?case by (simp add: verdictOf_def)
next
  case (Suc n)
  show ?case
    by (simp add: Suc.IH Let_def split: sum.splits) (simp add: verdictOf_def)
qed

lemma allow_walkFrom:
  "allow srv files acl mode path = verdictOf srv files acl mode (walkFrom srv files path)"
  by (simp add: allow_def walkFrom_def allowLoop_aclWalk split: sum.splits) (simp add: verdictOf_def)

lemma allowLoop_absent:
  assumes "pathInfo srv files path = Inr p" and "\<not> Exists p"
  shows "allowLoop srv files acl mode n i path accessType log =
           \<lparr>code = 200, failure = None, wwwAuthenticate = None, consulted = log\<rparr>"
  using assms by (induction n arbitrary: i) simp_all

lemma checkPolicies_no_match:
  assumes "\<not> ruleMatches srv g mode accessType (URI p) (user acl) (Header (req acl) ''Origin'')"
    and "cookieEncode srv ''WWW-Authenticate''
           [''secret'' \<mapsto> cookieSalt srv, ''valid'' \<mapsto> showInt (Now srv + 60)] = Inr token"
  shows "checkPolicies srv acl mode p accessType g log =
           (if user acl = [] then
              \<lparr>code = 401, failure = Some (AuthenticationRequired (URI p)),
               wwwAuthenticate = Some (''WebID-RSA nonce='' @ [CHR 0x22] @ token @ [CHR 0x22]),
               consulted = log\<rparr>
            else \<lparr>code = 403, failure = Some (AccessDenied (user acl)), wwwAuthenticate = None,
                  consulted = log\<rparr>)"
  using assms by (simp add: checkPolicies_def ruleMatches_def NewSecureToken_def)


text \<open>
  Claim C1. When the walk of \<open>allow\<close> ends at an authoritative (non-empty) ACL graph
  and neither pass finds a rule that matches the request, \<open>allow\<close> returns 401 with
  the header \<open>WWW-Authenticate: WebID-RSA nonce="<token>"\<close> for the empty user, and
  403 without that header for any other user, whatever the mode, the path and the
  origin. The token is the one the cookie codec mints under the type
  \<open>WWW-Authenticate\<close> for the server's secret with a validity of the clock plus 60
  seconds.
\<close>

theorem allow_no_match:
  assumes "fst (walkFrom srv files path) = Authoritative p accessType"
    and "\<not> ruleMatches srv (ReadFile srv files (AclFile p)) mode accessType (URI p) (user acl)
            (Header (req acl) ''Origin'')"
    and "cookieEncode srv ''WWW-Authenticate''
           [''secret'' \<mapsto> cookieSalt srv, ''valid'' \<mapsto> showInt (Now srv + 60)] = Inr token"
  shows "code (allow srv files acl mode path) = (if user acl = [] then 401 else 403)
       \<and> wwwAuthenticate (allow srv files acl mode path) =
           (if user acl = [] then Some (''WebID-RSA nonce='' @ [CHR 0x22] @ token @ [CHR 0x22])
            else None)"
  using assms by (simp add: allow_walkFrom verdictOf_def checkPolicies_no_match)

theorem allow_no_match_witness:
  "fst (walkFrom exampleServer exampleFiles ''http://h/docs/locked/leaf'') =
     Authoritative lockedInfo ''defaultForNew''
   \<and> \<not> ruleMatches exampleServer (ReadFile exampleServer exampleFiles (AclFile lockedInfo))
         ''Read'' ''defaultForNew'' (URI lockedInfo) (user (visitor [] []))
         (Header (req (visitor [] [])) ''Origin'')
   \<and> cookieEncode exampleServer ''WWW-Authenticate''
         [''secret'' \<mapsto> cookieSalt exampleServer, ''valid'' \<mapsto> showInt (Now exampleServer + 60)]
       = Inr ''WWW-Authenticate.1060''
   \<and> code (allow exampleServer exampleFiles (visitor [] []) ''Read'' ''http://h/docs/locked/leaf'') = 401
   \<and> wwwAuthenticate (allow exampleServer exampleFiles (visitor [] []) ''Read'' ''http://h/docs/locked/leaf'')
       = Some (''WebID-RSA nonce='' @ [CHR 0x22] @ ''WWW-Authenticate.1060'' @ [CHR 0x22])"
proof -
  have w: "fst (walkFrom exampleServer exampleFiles ''http://h/docs/locked/leaf'') =
             Authoritative lockedInfo ''defaultForNew''"
    by code_simp
  have m: "\<not> ruleMatches exampleServer (ReadFile exampleServer exampleFiles (AclFile lockedInfo))
         ''Read'' ''defaultForNew'' (URI lockedInfo) (user (visitor [] []))
         (Header (req (visitor [] [])) ''Origin'')"
    by code_simp
  have t: "cookieEncode exampleServer ''WWW-Authenticate''
         [''secret'' \<mapsto> cookieSalt exampleServer, ''valid'' \<mapsto> showInt (Now exampleServer + 60)]
       = Inr ''WWW-Authenticate.1060''"
    by code_simp
  have u: "user (visitor [] []) = []" by (simp add: visitor_def)
  from allow_no_match [OF w m t] u w m t show ?thesis by simp
qed

text \<open>
  Claim C4. When the file of the requested path does not exist, \<open>allow\<close> returns 200
  for every mode, user and origin, and it reads no ACL file at all: every iteration
  takes the \<open>continue\<close> with the same path, so no ancestor is ever looked at.
\<close>

theorem allow_absent_target:
  assumes "pathInfo srv files path = Inr p" and "\<not> Exists p"
  shows "allow srv files acl mode path =
           \<lparr>code = 200, failure = None, wwwAuthenticate = None, consulted = []\<rparr>"
  using assms by (simp add: allow_def allowLoop_absent)

theorem allow_absent_target_witness:
  "pathInfo exampleServer exampleFiles ''http://h/nope/'' = Inr nopeInfo \<and> \<not> Exists nopeInfo
   \<and> allow exampleServer exampleFiles (visitor [] []) ''Write'' ''http://h/nope/'' =
       \<lparr>code = 200, failure = None, wwwAuthenticate = None, consulted = []\<rparr>"
proof -
  have h: "pathInfo exampleServer exampleFiles ''http://h/nope/'' = Inr nopeInfo" by code_simp
  have e: "\<not> Exists nopeInfo" by (simp add: nopeInfo_def)
  from allow_absent_target [OF h e] h e show ?thesis by simp
qed

section \<open>Properties of the request handler\<close>





text \<open>The guard of both functions for an empty argument is never met by the
  handlers, whose argument starts with a quote.\<close>

lemma preconditions_without_etag: "ifMatch r [] \<and> ifNoneMatch r []"
  by (simp add: ifMatch_def ifNoneMatch_def)

















section \<open>Origins and inheritance\<close>

lemma modePass_confined:
  assumes "origin \<noteq> []"
    and "\<forall>i \<in> set (graphAll g None (Some (ns_acl ''mode'')) (Some (ns_acl mode))).
           graphAll g (Some (Subject i)) (Some (ns_acl accessType)) (Some (Resource uri)) \<noteq> [] \<longrightarrow>
             graphAll g (Some (Subject i)) (Some (ns_acl ''origin'')) None \<noteq> []
             \<and> brack origin \<notin> set (map (\<lambda>t. term_String (Object t))
                                   (graphAll g (Some (Subject i)) (Some (ns_acl ''origin'')) None))"
  shows "\<not> modePass srv g mode accessType uri u origin"
  using assms by (auto simp: modePass_def originAllowed_def list_ex_iff Let_def)

text \<open>
  Claim C3, as amended. For a request with a non-empty \<open>Origin\<close>: when the walk ends
  at an authoritative ACL in which every rule of the requested mode for the resource
  carries at least one \<open>acl:origin\<close> and none of them prints as the bracketed request
  origin, the second pass allows nothing, whatever the agent tests would say; and
  when, in addition, no \<open>Control\<close> rule for the resource passes the agent tests (the
  first pass looks at no origin), the check falls through to 401 for the empty user
  and 403 for any other.
\<close>

theorem origin_confinement:
  assumes "fst (walkFrom srv files path) = Authoritative p accessType"
    and "g = ReadFile srv files (AclFile p)"
    and "Header (req acl) ''Origin'' \<noteq> []"
    and "\<forall>i \<in> set (graphAll g None (Some (ns_acl ''mode'')) (Some (ns_acl mode))).
           graphAll g (Some (Subject i)) (Some (ns_acl accessType)) (Some (Resource (URI p))) \<noteq> [] \<longrightarrow>
             graphAll g (Some (Subject i)) (Some (ns_acl ''origin'')) None \<noteq> []
             \<and> brack (Header (req acl) ''Origin'')
                 \<notin> set (map (\<lambda>t. term_String (Object t))
                          (graphAll g (Some (Subject i)) (Some (ns_acl ''origin'')) None))"
    and "\<not> controlPass srv g accessType (URI p) (user acl)"
    and "cookieEncode srv ''WWW-Authenticate''
           [''secret'' \<mapsto> cookieSalt srv, ''valid'' \<mapsto> showInt (Now srv + 60)] = Inr token"
  shows "\<not> modePass srv g mode accessType (URI p) (user acl) (Header (req acl) ''Origin'')
       \<and> code (allow srv files acl mode path) = (if user acl = [] then 401 else 403)
       \<and> wwwAuthenticate (allow srv files acl mode path) =
           (if user acl = [] then Some (''WebID-RSA nonce='' @ [CHR 0x22] @ token @ [CHR 0x22])
            else None)"
proof -
  have m: "\<not> modePass srv g mode accessType (URI p) (user acl) (Header (req acl) ''Origin'')"
    using modePass_confined [OF assms(3,4)] .
  with assms(5) have "\<not> ruleMatches srv (ReadFile srv files (AclFile p)) mode accessType (URI p)
                          (user acl) (Header (req acl) ''Origin'')"
    by (simp add: ruleMatches_def assms(2))
  from checkPolicies_no_match [OF this assms(6)] m assms(1) show ?thesis
    by (simp add: allow_walkFrom verdictOf_def)
qed

theorem origin_confinement_witness:
  "fst (walkFrom exampleServer exampleFiles ''http://h/shop/'') = Authoritative shopInfo ''accessTo''
   \<and> ReadFile exampleServer exampleFiles (AclFile shopInfo) = shopPolicy
   \<and> Header (req (visitor [] [(''Origin'', ''http://example.com/'')])) ''Origin'' = ''http://example.com/''
   \<and> graphAll shopPolicy None (Some (ns_acl ''mode'')) (Some (ns_acl ''Read''))
       = [rule ''#Public'' ''mode'' (ns_acl ''Read'')]
   \<and> map (\<lambda>t. term_String (Object t))
         (graphAll shopPolicy (Some (Resource ''#Public'')) (Some (ns_acl ''origin'')) None)
       = [''<http://example.org/>'']
   \<and> agentTest exampleServer shopPolicy (Resource ''#Public'') []
   \<and> \<not> controlPass exampleServer shopPolicy ''accessTo'' (URI shopInfo) []
   \<and> code (allow exampleServer exampleFiles (visitor [] [(''Origin'', ''http://example.com/'')])
             ''Read'' ''http://h/shop/'') = 401"
proof -
  let ?acl = "visitor [] [(''Origin'', ''http://example.com/'')]"
  have a: "fst (walkFrom exampleServer exampleFiles ''http://h/shop/'') = Authoritative shopInfo ''accessTo''"
    by code_simp
  have b: "shopPolicy = ReadFile exampleServer exampleFiles (AclFile shopInfo)" by code_simp
  have c: "Header (req ?acl) ''Origin'' \<noteq> []" by code_simp
  have c': "Header (req ?acl) ''Origin'' = ''http://example.com/''" by code_simp
  have d: "\<forall>i \<in> set (graphAll shopPolicy None (Some (ns_acl ''mode'')) (Some (ns_acl ''Read''))).
           graphAll shopPolicy (Some (Subject i)) (Some (ns_acl ''accessTo'')) (Some (Resource (URI shopInfo))) \<noteq> [] \<longrightarrow>
             graphAll shopPolicy (Some (Subject i)) (Some (ns_acl ''origin'')) None \<noteq> []
             \<and> brack (Header (req ?acl) ''Origin'')
                 \<notin> set (map (\<lambda>t. term_String (Object t))
                          (graphAll shopPolicy (Some (Subject i)) (Some (ns_acl ''origin'')) None))"
    by code_simp
  have e: "\<not> controlPass exampleServer shopPolicy ''accessTo'' (URI shopInfo) (user ?acl)"
    by code_simp
  have e': "\<not> controlPass exampleServer shopPolicy ''accessTo'' (URI shopInfo) []"
    by code_simp
  have f: "cookieEncode exampleServer ''WWW-Authenticate''
         [''secret'' \<mapsto> cookieSalt exampleServer, ''valid'' \<mapsto> showInt (Now exampleServer + 60)]
       = Inr ''WWW-Authenticate.1060''"
    by code_simp
  have g: "graphAll shopPolicy None (Some (ns_acl ''mode'')) (Some (ns_acl ''Read''))
       = [rule ''#Public'' ''mode'' (ns_acl ''Read'')]"
    by code_simp
  have h: "map (\<lambda>t. term_String (Object t))
         (graphAll shopPolicy (Some (Resource ''#Public'')) (Some (ns_acl ''origin'')) None)
       = [''<http://example.org/>'']"
    by code_simp
  have i: "agentTest exampleServer shopPolicy (Resource ''#Public'') []" by code_simp
  have u: "user ?acl = []" by (simp add: visitor_def)
  from origin_confinement [OF a b c d e f] u
  have "code (allow exampleServer exampleFiles ?acl ''Read'' ''http://h/shop/'') = 401" by simp
  with a b c' g h i e' show ?thesis by simp
qed

text \<open>
  Claim C3 as stated fails. The only \<open>Read\<close> rule of \<open>app/\<close> carries the origin
  \<open>http://example.org/\<close>; it also has mode \<open>Control\<close>. Alice's \<open>Read\<close> from
  \<open>http://example.com/\<close> is allowed all the same, by the first pass.
\<close>

theorem origin_confinement_counterexample:
  "Header (req (visitor alice [(''Origin'', ''http://example.com/'')])) ''Origin'' = ''http://example.com/''
   \<and> fst (walkFrom exampleServer exampleFiles ''http://h/app/'') = Authoritative appInfo ''accessTo''
   \<and> ReadFile exampleServer exampleFiles (AclFile appInfo) = appPolicy
   \<and> graphAll appPolicy None (Some (ns_acl ''mode'')) (Some (ns_acl ''Read''))
       = [rule ''#Owner'' ''mode'' (ns_acl ''Read'')]
   \<and> graphAll appPolicy (Some (Resource ''#Owner'')) (Some (ns_acl ''origin'')) None
       = [rule ''#Owner'' ''origin'' (Resource ''http://example.org/'')]
   \<and> term_String (Resource ''http://example.org/'') \<noteq> brack ''http://example.com/''
   \<and> agentTest exampleServer appPolicy (Resource ''#Owner'') alice
   \<and> code (allow exampleServer exampleFiles (visitor alice [(''Origin'', ''http://example.com/'')])
             ''Read'' ''http://h/app/'') = 200"
  by code_simp







section \<open>Slot allocation\<close>


lemma Split_nonempty: "Split s sep \<noteq> []"
  by (induction s) (auto split: list.splits)

lemma Split_append: "Split (a @ sep # b) sep = Split a sep @ Split b sep"
proof (induction a)
  case Nil
  show ?case by simp
next
  case (Cons c a)
  obtain x xs where s: "Split a sep = x # xs" using Split_nonempty [of a sep] by (cases "Split a sep") auto
  show ?case using Cons s by simp
qed




lemma components_append: "components (a @ CHR ''/'' # b) = components a @ components b"
  by (simp add: components_def Split_append)

lemma components_slash [simp]: "components (a @ ''/'') = components a"
  using components_append [of a "[]"] by (simp add: components_def)

lemma components_after_slash:
  "a = [] \<or> HasSuffix a ''/'' \<Longrightarrow> components (a @ b) = components a @ components b"
proof (cases a rule: rev_cases)
  case Nil
  assume "a = [] \<or> HasSuffix a ''/''"
  show ?thesis using Nil by (simp add: components_def)
next
  case (snoc ys y)
  assume "a = [] \<or> HasSuffix a ''/''"
  then have "y = CHR ''/''" using snoc by (simp add: HasSuffix_single)
  then show ?thesis using snoc components_append [of ys b] components_slash [of ys] by simp
qed







lemma getScheme_http:
  "getScheme w [] (CHR ''h'' # CHR ''t'' # CHR ''t'' # CHR ''p'' # CHR '':'' # rest) = Inr (''http'', rest)"
  by (simp add: isLetter_def isSchemeChar_def byte_def)

lemma getScheme_https:
  "getScheme w [] (CHR ''h'' # CHR ''t'' # CHR ''t'' # CHR ''p'' # CHR ''s'' # CHR '':'' # rest) = Inr (''https'', rest)"
  by (simp add: isLetter_def isSchemeChar_def byte_def)
































text \<open>A container with a name of one letter, addressed without its slash, keeps
  a file path without the slash; the conflict test then looks at another name, and
  the same POST is answered 201 twice.\<close>

lemma one_letter_container_repeats:
  "os_Stat exampleFiles ''data/d'' = Info True
   \<and> map_sum id status (handle noOthers exampleServer exampleFiles postToD) = Inr 201
   \<and> map_sum id status
       (handle noOthers exampleServer
          (store (projr (handle noOthers exampleServer exampleFiles postToD))) postToD) = Inr 201"
  by code_simp

text \<open>The walk from a file ends before the root: below, the ACL of the root is read
  for the directory \<open>pub/\<close> and not for the file \<open>pub/ldpr\<close>.\<close>

lemma walk_from_file_skips_root:
  "consulted (allow exampleServer exampleFiles (visitor [] []) ''Read'' ''http://h/pub/ldpr'')
     = [(''accessTo'', ''data/pub/ldpr.acl''), (''defaultForNew'', ''data/pub/.acl'')]
   \<and> consulted (allow exampleServer exampleFiles (visitor [] []) ''Read'' ''http://h/pub/'')
     = [(''accessTo'', ''data/pub/.acl''), (''defaultForNew'', ''data/.acl'')]"
  by code_simp

end
